theory Spec2Isabelle
  imports Complex_Main "HOL-Library.Multiset"
begin

section \<open>Conventions of the embedding\<close>

text \<open>
  The C++ sources are templates over Armadillo containers. A matrix is embedded as the
  list of its columns (one column = one sample), a vector as the list of its elements,
  \<open>double\<close> as \<open>real\<close> and \<open>size_t\<close> as \<open>nat\<close> with the wrap-around at \<open>2 ^ 64\<close> written
  out where the source subtracts. Armadillo reports a failed check by throwing
  \<open>std::logic_error\<close>; each such check is a branch of the model returning a value of
  \<open>error\<close> (the checks are enabled unless the program is compiled with
  \<open>ARMA_NO_DEBUG\<close>; they are taken as enabled). An access that Armadillo does not check (\<open>operator[]\<close>) and that falls
  outside its container, and a conversion from \<open>double\<close> to \<open>size_t\<close> of a value that
  \<open>size_t\<close> cannot hold, have no defined behaviour in C++: the model stops there with
  \<open>UndefinedBehaviour\<close>. A division by zero of doubles gives an infinity or a NaN, which
  \<open>real\<close> does not have: the model stops there with \<open>NonFinite\<close>. Rounding is not
  modelled: a product or a sum of doubles is the exact product or sum.
\<close>

datatype error =
    IndexOutOfBounds      \<comment> \<open>\<open>std::logic_error\<close>: \<open>col()\<close>, \<open>cols()\<close>, \<open>operator()\<close> out of bounds\<close>
  | IncompatibleSize      \<comment> \<open>\<open>std::logic_error\<close>: sizes of the operands or layout do not fit\<close>
  | NoElements            \<comment> \<open>\<open>std::logic_error\<close>: \<open>min()\<close> or \<open>max()\<close> of an empty object\<close>
  | RuntimeError          \<comment> \<open>\<open>std::runtime_error\<close> thrown by \<open>StratifiedSplit\<close>\<close>
  | UndefinedBehaviour
  | NonFinite

section \<open>The SSE loss (methods/xgboost/loss\_functions/sse\_loss.hpp)\<close>

text \<open>
  \<open>Gradients\<close>, \<open>Hessians\<close> and \<open>Residuals\<close> are templates over the argument type \<open>T\<close>. For
  a scalar \<open>T\<close> the operators are those of the number type; for an Armadillo vector they
  are elementwise, and the binary minus checks that both operands have the same size.
\<close>

definition Gradients :: "'a::group_add \<Rightarrow> 'a \<Rightarrow> 'a" where
  "Gradients observed values = - (observed - values)"

definition Residuals :: "'a::group_add \<Rightarrow> 'a \<Rightarrow> 'a" where
  "Residuals observed f = - Gradients observed f"

definition Hessians :: "'a::one \<Rightarrow> 'a \<Rightarrow> 'a" where
  "Hessians observed values = 1"

text \<open>Armadillo's elementwise \<open>A - B\<close> and unary \<open>-A\<close> on vectors.\<close>

definition arma_minus :: "'a::group_add list \<Rightarrow> 'a list \<Rightarrow> error + 'a list" where
  "arma_minus A B =
     (if length A = length B then Inr (map2 (\<lambda>a b. a - b) A B) else Inl IncompatibleSize)"

definition arma_uminus :: "'a::group_add list \<Rightarrow> 'a list" where
  "arma_uminus A = map uminus A"

definition Gradients_vec :: "'a::group_add list \<Rightarrow> 'a list \<Rightarrow> error + 'a list" where
  "Gradients_vec observed values =
     (case arma_minus observed values of
        Inl e \<Rightarrow> Inl e
      | Inr d \<Rightarrow> Inr (arma_uminus d))"

definition Residuals_vec :: "'a::group_add list \<Rightarrow> 'a list \<Rightarrow> error + 'a list" where
  "Residuals_vec observed f =
     (case Gradients_vec observed f of
        Inl e \<Rightarrow> Inl e
      | Inr g \<Rightarrow> Inr (arma_uminus g))"

text \<open>
  The vector overload of \<open>Hessians\<close> is \<open>VecType h(values.n_elem, 1); return h;\<close>. The two
  arguments of that constructor are \<open>n_rows\<close> and \<open>n_cols\<close>: it makes an object of
  \<open>values.n_elem\<close> rows and one column and writes no element. A column vector accepts the
  size when \<open>n_cols = 1\<close>, a row vector when \<open>n_rows = 1\<close> (or when both are zero);
  otherwise Armadillo throws. The elements are what the fresh memory holds: zeros since
  Armadillo 10.5, anything before. The memory is the parameter \<open>mem\<close>. (\<open>set_size\<close> of a
  vector makes the same check of the two sizes.)
\<close>

datatype vec_layout = IsCol | IsRow

definition arma_vec_rows_cols ::
  "vec_layout \<Rightarrow> (nat \<Rightarrow> 'a) \<Rightarrow> nat \<Rightarrow> nat \<Rightarrow> error + 'a list" where
  "arma_vec_rows_cols layout mem n_rows n_cols =
     (if n_rows = 0 \<and> n_cols = 0 then Inr []
      else case layout of
        IsCol \<Rightarrow> if n_cols \<noteq> 1 then Inl IncompatibleSize else Inr (map mem [0..<n_rows])
      | IsRow \<Rightarrow> if n_rows \<noteq> 1 then Inl IncompatibleSize else Inr (map mem [0..<n_cols]))"

definition Hessians_vec ::
  "vec_layout \<Rightarrow> (nat \<Rightarrow> 'a) \<Rightarrow> 'a list \<Rightarrow> 'a list \<Rightarrow> error + 'a list" where
  "Hessians_vec layout mem observed values = arma_vec_rows_cols layout mem (length values) 1"

section \<open>The categorical split (methods/decision\_tree/all\_categorical\_split\_impl.hpp)\<close>

text \<open>
  \<open>(size_t) x\<close> on a double truncates towards zero; it is defined when the truncated value
  fits \<open>size_t\<close>, that is for \<open>- 1 < x < 2 ^ 64\<close>. For \<open>- 1 < x < 0\<close> the result is 0, which
  is also what \<open>nat \<lfloor>x\<rfloor>\<close> gives there.
\<close>

definition size_t_of_double :: "real \<Rightarrow> nat option" where
  "size_t_of_double x = (if - 1 < x \<and> x < 2 ^ 64 then Some (nat \<lfloor>x\<rfloor>) else None)"

definition DBL_MAX :: real where
  "DBL_MAX = (2 ^ 53 - 1) * 2 ^ 971"

text \<open>
  \<open>SplitInfoType\<close> is \<open>double\<close> (regression) or \<open>arma::vec\<close> (classification); the two
  overloads of \<open>StoreSplitInfo\<close> are the two equations.
\<close>

datatype split_info = Scalar real | Vector "real list"

fun StoreSplitInfo :: "split_info \<Rightarrow> real \<Rightarrow> split_info" where
  "StoreSplitInfo (Scalar old) payload = Scalar payload"
| "StoreSplitInfo (Vector old) payload = Vector [payload]"

text \<open>\<open>arma::min\<close> of a vector: throws on an empty one.\<close>

definition arma_min :: "nat list \<Rightarrow> error + nat" where
  "arma_min v = (case v of [] \<Rightarrow> Inl NoElements | x # xs \<Rightarrow> Inr (fold min xs x))"

text \<open>
  The first loop of \<open>SplitIfBetter\<close> (lines 62 to 71), over the indices \<open>i\<close> of \<open>data\<close>:
  \<open>counts[(size_t) data[i]]++\<close> and, with \<open>UseWeights\<close>, the two weight sums. None of the
  accesses is checked.
\<close>

record count_state =
  counts :: "nat list"
  childWeightSums :: "real list"
  sumWeight :: real

fun count_loop ::
  "bool \<Rightarrow> real list \<Rightarrow> real list \<Rightarrow> nat list \<Rightarrow> count_state \<Rightarrow> error + count_state" where
  "count_loop UseWeights data weights [] s = Inr s"
| "count_loop UseWeights data weights (i # rest) s =
     (case size_t_of_double (data ! i) of
        None \<Rightarrow> Inl UndefinedBehaviour
      | Some c \<Rightarrow>
          if length (counts s) \<le> c then Inl UndefinedBehaviour
          else
            let s1 = s\<lparr>counts := (counts s)[c := counts s ! c + 1]\<rparr> in
            if UseWeights then
              (if length weights \<le> i then Inl UndefinedBehaviour
               else count_loop UseWeights data weights rest
                      (s1\<lparr>childWeightSums :=
                            (childWeightSums s1)[c := childWeightSums s1 ! c + weights ! i],
                          sumWeight := sumWeight s1 + weights ! i\<rparr>))
            else count_loop UseWeights data weights rest s1)"

text \<open>
  The second loop (lines 92 to 105) copies each label (and weight) to the next free
  position of its child.
\<close>

record 'l child_state =
  childPositions :: "nat list"
  childLabels :: "'l list list"
  childWeights :: "real list list"

fun extract_loop ::
  "bool \<Rightarrow> real list \<Rightarrow> 'l list \<Rightarrow> real list \<Rightarrow> nat list \<Rightarrow> 'l child_state \<Rightarrow>
   error + 'l child_state" where
  "extract_loop UseWeights data labels weights [] s = Inr s"
| "extract_loop UseWeights data labels weights (i # rest) s =
     (case size_t_of_double (data ! i) of
        None \<Rightarrow> Inl UndefinedBehaviour
      | Some category \<Rightarrow>
          if length (childPositions s) \<le> category \<or> length labels \<le> i
          then Inl UndefinedBehaviour
          else
            let pos = childPositions s ! category in
            if length (childLabels s ! category) \<le> pos then Inl UndefinedBehaviour
            else if UseWeights then
              (if length weights \<le> i \<or> length (childWeights s ! category) \<le> pos
               then Inl UndefinedBehaviour
               else extract_loop UseWeights data labels weights rest
                      (s\<lparr>childLabels :=
                           (childLabels s)[category := (childLabels s ! category)[pos := labels ! i]],
                         childWeights :=
                           (childWeights s)[category := (childWeights s ! category)[pos := weights ! i]],
                         childPositions := (childPositions s)[category := pos + 1]\<rparr>))
            else extract_loop UseWeights data labels weights rest
                   (s\<lparr>childLabels :=
                        (childLabels s)[category := (childLabels s ! category)[pos := labels ! i]],
                      childPositions := (childPositions s)[category := pos + 1]\<rparr>))"

text \<open>
  The third loop (lines 107 to 118) adds up the children's gains. The fitness function
  is the parameter \<open>Evaluate\<close> (\<open>FitnessFunction::Evaluate<UseWeights>\<close>); the loop also
  records, in order, the arguments of every call it makes to it.
\<close>

type_synonym 'l fitness = "'l list \<Rightarrow> nat \<Rightarrow> real list \<Rightarrow> real"
type_synonym 'l calls = "('l list \<times> nat \<times> real list) list"

fun gain_loop ::
  "bool \<Rightarrow> 'l fitness \<Rightarrow> nat \<Rightarrow> nat \<Rightarrow> count_state \<Rightarrow> 'l child_state \<Rightarrow> nat list \<Rightarrow>
   real \<times> 'l calls \<Rightarrow> error + real \<times> 'l calls" where
  "gain_loop UseWeights Evaluate n_elem numClasses cs ch [] acc = Inr acc"
| "gain_loop UseWeights Evaluate n_elem numClasses cs ch (i # rest) (overallGain, called) =
     (if (if UseWeights then sumWeight cs = 0 else n_elem = 0) then Inl NonFinite
      else
        let childPct = (if UseWeights then childWeightSums cs ! i / sumWeight cs
                        else real (counts cs ! i) / real n_elem);
            childGain = Evaluate (childLabels ch ! i) numClasses (childWeights ch ! i)
        in gain_loop UseWeights Evaluate n_elem numClasses cs ch rest
             (overallGain + childPct * childGain,
              called @ [(childLabels ch ! i, numClasses, childWeights ch ! i)]))"

text \<open>
  \<open>SplitIfBetter\<close> returns the gain, and the model returns with it the value of the
  reference parameter \<open>splitInfo\<close> after the call and the calls made to the fitness
  function.
\<close>

definition SplitIfBetter ::
  "bool \<Rightarrow> ('l::zero) fitness \<Rightarrow> real \<Rightarrow> real list \<Rightarrow> nat \<Rightarrow> 'l list \<Rightarrow> nat \<Rightarrow> real list \<Rightarrow>
   nat \<Rightarrow> real \<Rightarrow> split_info \<Rightarrow> error + real \<times> split_info \<times> 'l calls" where
  "SplitIfBetter UseWeights Evaluate bestGain data numCategories labels numClasses weights
     minimumLeafSize minimumGainSplit splitInfo =
     (let epsilon = 1 / 10 ^ 7;
          s0 = \<lparr>counts = replicate numCategories 0,
                childWeightSums = (if UseWeights then replicate numCategories 0 else []),
                sumWeight = 0\<rparr>
      in case count_loop UseWeights data weights [0..<length data] s0 of
           Inl e \<Rightarrow> Inl e
         | Inr cs \<Rightarrow>
           (case arma_min (counts cs) of
              Inl e \<Rightarrow> Inl e
            | Inr least \<Rightarrow>
                if least < minimumLeafSize then Inr (DBL_MAX, splitInfo, [])
                else
                  let c0 = \<lparr>childPositions = replicate numCategories 0,
                            childLabels = map (\<lambda>i. replicate (counts cs ! i) 0) [0..<numCategories],
                            childWeights =
                              map (\<lambda>i. if UseWeights then replicate (counts cs ! i) 0 else [])
                                [0..<numCategories]\<rparr>
                  in (case extract_loop UseWeights data labels weights [0..<length data] c0 of
                       Inl e \<Rightarrow> Inl e
                     | Inr ch \<Rightarrow>
                       (case gain_loop UseWeights Evaluate (length data) numClasses cs ch
                               [0..<length (counts cs)] (0, []) of
                          Inl e \<Rightarrow> Inl e
                        | Inr (overallGain, called) \<Rightarrow>
                            if overallGain > bestGain + minimumGainSplit + epsilon
                            then Inr (overallGain,
                                      StoreSplitInfo splitInfo (real numCategories), called)
                            else Inr (DBL_MAX, splitInfo, called)))))"

section \<open>The partitioner (core/data/split\_data.hpp)\<close>

text \<open>
  A dataset is the list of its columns and a label container the list of its columns
  (for a label vector, of its elements). \<open>set_size\<close> leaves the elements of the resized
  container unwritten: an output container is a list of slots, \<open>None\<close> for a slot that
  was never written and \<open>Some c\<close> for one that holds \<open>c\<close>.

  The output containers are reference parameters: a function of the model takes their
  state before the call and returns their state after it. When the source throws, or
  leaves defined behaviour, the model returns the error together with the state of the
  output containers at that moment.
\<close>

record ('a, 'l) split_outputs =
  trainData :: "'a option list"
  testData :: "'a option list"
  trainLabel :: "'l option list"
  testLabel :: "'l option list"

type_synonym ('a, 'l) split_result =
  "error \<times> ('a, 'l) split_outputs + ('a, 'l) split_outputs"

definition set_size :: "nat \<Rightarrow> 'a option list" where
  "set_size n = replicate n None"

text \<open>Subtraction of \<open>size_t\<close> values wraps around.\<close>

definition size_t_sub :: "nat \<Rightarrow> nat \<Rightarrow> nat" where
  "size_t_sub a b = (if b \<le> a then a - b else a + 2 ^ 64 - b)"

text \<open>\<open>m.col(i)\<close> and \<open>m.cols(a, b)\<close> check their bounds.\<close>

definition col :: "'a list \<Rightarrow> nat \<Rightarrow> error + 'a" where
  "col m i = (if i < length m then Inr (m ! i) else Inl IndexOutOfBounds)"

definition cols :: "'a list \<Rightarrow> nat \<Rightarrow> nat \<Rightarrow> error + 'a list" where
  "cols m a b =
     (if b < a \<or> length m \<le> b then Inl IndexOutOfBounds
      else Inr (take (b - a + 1) (drop a m)))"

text \<open>
  The two loops of the shuffled branch of \<open>SplitHelper\<close> (lines 46 to 50 and 54 to 58)
  have one body, up to the pair of containers written and the offset \<open>off\<close> taken from
  the index (0 for the training pair, \<open>trainSize\<close> for the test pair):
  \<open>D.col(i - off) = input.col(order(i)); L.col(i - off) = inputLabel.col(order(i));\<close>
  The permutation \<open>order\<close>, which the source draws with
  \<open>arma::shuffle(arma::linspace<arma::uvec>(0, n_cols - 1, n_cols))\<close>, is a parameter.
\<close>

fun copy_loop ::
  "'a list \<Rightarrow> 'l list \<Rightarrow> nat list \<Rightarrow> nat \<Rightarrow> nat list \<Rightarrow> 'a option list \<times> 'l option list \<Rightarrow>
   error \<times> ('a option list \<times> 'l option list) + 'a option list \<times> 'l option list" where
  "copy_loop input inputLabel order off [] (D, L) = Inr (D, L)"
| "copy_loop input inputLabel order off (i # rest) (D, L) =
     (if length order \<le> i then Inl (IndexOutOfBounds, (D, L))
      else case col input (order ! i) of
        Inl e \<Rightarrow> Inl (e, (D, L))
      | Inr c \<Rightarrow>
          if length D \<le> i - off then Inl (IndexOutOfBounds, (D, L))
          else
            let D1 = D[i - off := Some c] in
            (case col inputLabel (order ! i) of
               Inl e \<Rightarrow> Inl (e, (D1, L))
             | Inr l \<Rightarrow>
                 if length L \<le> i - off then Inl (IndexOutOfBounds, (D1, L))
                 else copy_loop input inputLabel order off rest (D1, L[i - off := Some l])))"

definition into_train ::
  "('a, 'l) split_outputs \<Rightarrow> 'a option list \<times> 'l option list \<Rightarrow> ('a, 'l) split_outputs" where
  "into_train s p = s\<lparr>trainData := fst p, trainLabel := snd p\<rparr>"

definition into_test ::
  "('a, 'l) split_outputs \<Rightarrow> 'a option list \<times> 'l option list \<Rightarrow> ('a, 'l) split_outputs" where
  "into_test s p = s\<lparr>testData := fst p, testLabel := snd p\<rparr>"

text \<open>The two assignments of the branch without shuffling (lines 63 to 73).\<close>

definition slice_train ::
  "'a list \<Rightarrow> 'l list \<Rightarrow> nat \<Rightarrow> ('a, 'l) split_outputs \<Rightarrow> ('a, 'l) split_result" where
  "slice_train input inputLabel trainSize s =
     (case cols input 0 (size_t_sub trainSize 1) of
        Inl e \<Rightarrow> Inl (e, s)
      | Inr d \<Rightarrow>
          let s1 = s\<lparr>trainData := map Some d\<rparr> in
          (case cols inputLabel 0 (size_t_sub trainSize 1) of
             Inl e \<Rightarrow> Inl (e, s1)
           | Inr l \<Rightarrow> Inr (s1\<lparr>trainLabel := map Some l\<rparr>)))"

definition slice_test ::
  "'a list \<Rightarrow> 'l list \<Rightarrow> nat \<Rightarrow> ('a, 'l) split_outputs \<Rightarrow> ('a, 'l) split_result" where
  "slice_test input inputLabel trainSize s =
     (case cols input trainSize (size_t_sub (length input) 1) of
        Inl e \<Rightarrow> Inl (e, s)
      | Inr d \<Rightarrow>
          let s1 = s\<lparr>testData := map Some d\<rparr> in
          (case cols inputLabel trainSize (size_t_sub (length inputLabel) 1) of
             Inl e \<Rightarrow> Inl (e, s1)
           | Inr l \<Rightarrow> Inr (s1\<lparr>testLabel := map Some l\<rparr>)))"

text \<open>\<open>SplitHelper\<close> with labels (lines 21 to 75); \<open>out0\<close> is the state of the output
  containers before the call.\<close>

definition SplitHelper ::
  "'a list \<Rightarrow> 'l list \<Rightarrow> ('a, 'l) split_outputs \<Rightarrow> real \<Rightarrow> bool \<Rightarrow> nat list \<Rightarrow>
   ('a, 'l) split_result" where
  "SplitHelper input inputLabel out0 testRatio shuffleData order =
     (case size_t_of_double (real (length input) * testRatio) of
        None \<Rightarrow> Inl (UndefinedBehaviour, out0)
      | Some testSize \<Rightarrow>
          let trainSize = size_t_sub (length input) testSize;
              s = \<lparr>trainData = set_size trainSize, testData = set_size testSize,
                   trainLabel = set_size trainSize, testLabel = set_size testSize\<rparr>
          in
          if shuffleData then
            (case (if trainSize > 0
                   then map_sum (map_prod id (into_train s)) (into_train s)
                          (copy_loop input inputLabel order 0 [0..<trainSize]
                             (trainData s, trainLabel s))
                   else Inr s) of
               Inl e \<Rightarrow> Inl e
             | Inr s1 \<Rightarrow>
                 if trainSize < length input
                 then map_sum (map_prod id (into_test s1)) (into_test s1)
                        (copy_loop input inputLabel order trainSize [trainSize..<length input]
                           (testData s1, testLabel s1))
                 else Inr s1)
          else
            (case (if trainSize > 0 then slice_train input inputLabel trainSize s else Inr s) of
               Inl e \<Rightarrow> Inl e
             | Inr s1 \<Rightarrow>
                 if trainSize < length input then slice_test input inputLabel trainSize s1
                 else Inr s1))"



text \<open>
  \<open>StratifiedSplit\<close> (lines 152 to 236). Labels are the indices of \<open>labelCounts\<close>, so they
  are of type \<open>nat\<close>. The parameter \<open>LabelsType\<close> is what the compile-time \<open>typeCheck\<close>
  looks at: \<open>Some IsRow\<close> for \<open>arma::Row\<close>, \<open>Some IsCol\<close> for \<open>arma::Col\<close> and \<open>None\<close> for
  any other Armadillo type. The label containers are resized with
  \<open>set_size(inputLabel.n_rows, trainSize)\<close>: a row vector has one row and accepts any
  number of columns; a column vector has as many rows as elements and accepts that call
  only when the number of columns asked for is 1.

  Lines 182 to 186: \<open>testSize += floor(labelCount * testRatio)\<close> adds a double to a
  \<open>size_t\<close> and converts the sum back.
\<close>

fun size_loop :: "real \<Rightarrow> nat list \<Rightarrow> nat \<times> nat \<Rightarrow> (nat \<times> nat) option" where
  "size_loop testRatio [] (trainSize, testSize) = Some (trainSize, testSize)"
| "size_loop testRatio (labelCount # rest) (trainSize, testSize) =
     (case size_t_of_double (real testSize + of_int \<lfloor>real labelCount * testRatio\<rfloor>) of
        None \<Rightarrow> None
      | Some testSize' \<Rightarrow>
          (case size_t_of_double
                  (real trainSize + (real labelCount - of_int \<lfloor>real labelCount * testRatio\<rfloor>)) of
             None \<Rightarrow> None
           | Some trainSize' \<Rightarrow> size_loop testRatio rest (trainSize', testSize')))"

text \<open>
  The loop over the samples (lines 198 to 214 and 218 to 234, the same body): \<open>visit\<close> is
  \<open>order\<close> when shuffling and \<open>0, 1, ..., n_cols - 1\<close> otherwise. \<open>inputLabel[i]\<close>,
  \<open>testLabel[testIdx]\<close> and \<open>trainLabel[trainIdx]\<close> are not checked; \<open>col\<close> is.
\<close>

record ('a, 'l) strat_state =
  outs :: "('a, 'l) split_outputs"
  testLabelCounts :: "nat list"
  trainIdx :: nat
  testIdx :: nat

fun strat_loop ::
  "'a list \<Rightarrow> nat list \<Rightarrow> nat list \<Rightarrow> real \<Rightarrow> nat list \<Rightarrow> ('a, nat) strat_state \<Rightarrow>
   error \<times> ('a, nat) split_outputs + ('a, nat) strat_state" where
  "strat_loop input inputLabel labelCounts testRatio [] s = Inr s"
| "strat_loop input inputLabel labelCounts testRatio (i # rest) s =
     (if length inputLabel \<le> i then Inl (UndefinedBehaviour, outs s)
      else
        let label = inputLabel ! i in
        if length labelCounts \<le> label \<or> length (testLabelCounts s) \<le> label
        then Inl (UndefinedBehaviour, outs s)
        else if real (testLabelCounts s ! label) < of_int \<lfloor>real (labelCounts ! label) * testRatio\<rfloor>
        then
          (let counts' = (testLabelCounts s)[label := testLabelCounts s ! label + 1] in
           case col input i of
             Inl e \<Rightarrow> Inl (e, outs s)
           | Inr c \<Rightarrow>
               if length (testData (outs s)) \<le> testIdx s then Inl (IndexOutOfBounds, outs s)
               else
                 let o1 = (outs s)\<lparr>testData := (testData (outs s))[testIdx s := Some c]\<rparr> in
                 if length (testLabel o1) \<le> testIdx s then Inl (UndefinedBehaviour, o1)
                 else strat_loop input inputLabel labelCounts testRatio rest
                        (s\<lparr>outs := o1\<lparr>testLabel := (testLabel o1)[testIdx s := Some label]\<rparr>,
                           testLabelCounts := counts',
                           testIdx := testIdx s + 1\<rparr>))
        else
          (case col input i of
             Inl e \<Rightarrow> Inl (e, outs s)
           | Inr c \<Rightarrow>
               if length (trainData (outs s)) \<le> trainIdx s then Inl (IndexOutOfBounds, outs s)
               else
                 let o1 = (outs s)\<lparr>trainData := (trainData (outs s))[trainIdx s := Some c]\<rparr> in
                 if length (trainLabel o1) \<le> trainIdx s then Inl (UndefinedBehaviour, o1)
                 else strat_loop input inputLabel labelCounts testRatio rest
                        (s\<lparr>outs := o1\<lparr>trainLabel := (trainLabel o1)[trainIdx s := Some label]\<rparr>,
                           trainIdx := trainIdx s + 1\<rparr>)))"

definition StratifiedSplit ::
  "vec_layout option \<Rightarrow> 'a list \<Rightarrow> nat list \<Rightarrow> ('a, nat) split_outputs \<Rightarrow> real \<Rightarrow> bool \<Rightarrow>
   nat list \<Rightarrow> ('a, nat) split_result" where
  "StratifiedSplit LabelsType input inputLabel out0 testRatio shuffleData order =
     (case LabelsType of
        None \<Rightarrow> Inl (RuntimeError, out0)
      | Some layout \<Rightarrow>
        (case inputLabel of
           [] \<Rightarrow> Inl (NoElements, out0)
         | l # ls \<Rightarrow>
             let maxLabel = fold max ls l;
                 labelCounts = fold (\<lambda>label lc. lc[label := lc ! label + 1]) inputLabel
                                 (replicate (maxLabel + 1) 0);
                 label_rows = (case layout of IsRow \<Rightarrow> 1 | IsCol \<Rightarrow> length inputLabel)
             in (case size_loop testRatio labelCounts (0, 0) of
                   None \<Rightarrow> Inl (UndefinedBehaviour, out0)
                 | Some (trainSize, testSize) \<Rightarrow>
                     let out1 = out0\<lparr>trainData := set_size trainSize,
                                     testData := set_size testSize\<rparr>
                     in (case arma_vec_rows_cols layout (\<lambda>_. None) label_rows trainSize of
                           Inl e \<Rightarrow> Inl (e, out1)
                         | Inr trainLabel0 \<Rightarrow>
                             let out2 = out1\<lparr>trainLabel := trainLabel0\<rparr>
                             in (case arma_vec_rows_cols layout (\<lambda>_. None) label_rows testSize of
                                   Inl e \<Rightarrow> Inl (e, out2)
                                 | Inr testLabel0 \<Rightarrow>
                                     map_sum id outs
                                       (strat_loop input inputLabel labelCounts testRatio
                                          (if shuffleData then order else [0..<length input])
                                          \<lparr>outs = out2\<lparr>testLabel := testLabel0\<rparr>,
                                           testLabelCounts = replicate (maxLabel + 1) 0,
                                           trainIdx = 0, testIdx = 0\<rparr>))))))"

text \<open>
  \<open>Split\<close> with labels returning a tuple (lines 348 to 377): fresh, empty output
  containers, and the choice between the two partitionings.
\<close>

definition Split ::
  "vec_layout option \<Rightarrow> 'a list \<Rightarrow> nat list \<Rightarrow> real \<Rightarrow> bool \<Rightarrow> bool \<Rightarrow> nat list \<Rightarrow>
   ('a, nat) split_result" where
  "Split LabelsType input inputLabel testRatio shuffleData stratifyData order =
     (let fresh = \<lparr>trainData = [], testData = [], trainLabel = [], testLabel = []\<rparr> in
      if stratifyData
      then StratifiedSplit LabelsType input inputLabel fresh testRatio shuffleData order
      else SplitHelper input inputLabel fresh testRatio shuffleData order)"

text \<open>
  The vocabulary of the specification, for stating what the three loops compute: the
  category of a value, the samples of a category (as indices into \<open>data\<close>, in order),
  the share of a child, the arguments the fitness function gets for it, and the gain
  weighted by these shares.
\<close>

definition category :: "real \<Rightarrow> nat" where
  "category x = nat \<lfloor>x\<rfloor>"

definition bucket_in :: "real list \<Rightarrow> nat list \<Rightarrow> nat \<Rightarrow> nat list" where
  "bucket_in data js c = filter (\<lambda>i. category (data ! i) = c) js"

definition bucket :: "real list \<Rightarrow> nat \<Rightarrow> nat list" where
  "bucket data c = bucket_in data [0..<length data] c"







section \<open>Properties of the SSE loss\<close>

lemma Hessians_vec_IsCol:
  "Hessians_vec IsCol mem observed values = Inr (map mem [0..<length values])"
  by (simp add: Hessians_vec_def arma_vec_rows_cols_def)

lemma Hessians_vec_IsRow:
  "Hessians_vec IsRow mem observed values =
     (if length values = 0 then Inl IncompatibleSize
      else if length values = 1 then Inr [mem 0] else Inl IncompatibleSize)"
  by (simp add: Hessians_vec_def arma_vec_rows_cols_def)

lemma Gradients_vec_length_mismatch:
  "length observed \<noteq> length values \<Longrightarrow> Gradients_vec observed values = Inl IncompatibleSize"
  by (simp add: Gradients_vec_def arma_minus_def)

lemma uminus_map2_minus:
  fixes xs ys :: "'a::group_add list"
  shows "map uminus (map2 (\<lambda>a b. a - b) xs ys) = map2 (\<lambda>a b. - (a - b)) xs ys"
  by (induction xs ys rule: list_induct2') simp_all

lemma uminus_map2_uminus_minus:
  fixes xs ys :: "'a::group_add list"
  shows "map uminus (map2 (\<lambda>a b. - (a - b)) xs ys) = map2 (\<lambda>a b. a - b) xs ys"
  by (induction xs ys rule: list_induct2') simp_all

text \<open>
  Claim C8. The scalar \<open>Hessians\<close> returns 1 for every pair of arguments. The vector
  overload does not return ones: on the column vectors \<open>[1, 2]\<close> and \<open>[3, 4]\<close>, with
  zero-filled fresh memory, it returns \<open>[0, 0]\<close>; on row vectors of that size it throws.
\<close>

theorem Hessians_vec_returns_memory_not_ones:
  "Hessians (5::real) 3 = 1 \<and>
   Hessians_vec IsCol (\<lambda>_. 0) [1, 2::real] [3, 4] = Inr [0, 0] \<and>
   Hessians_vec IsRow (\<lambda>_. 0) [1, 2::real] [3, 4] = Inl IncompatibleSize"
  by (simp add: Hessians_def Hessians_vec_IsCol Hessians_vec_IsRow upt_rec)

text \<open>
  Claim C9. On scalars, \<open>Gradients observed predicted = - (observed - predicted)\<close> and
  \<open>Residuals observed predicted = - Gradients observed predicted = observed - predicted\<close>.
  On vectors of one size the same holds elementwise. The only law of the number type
  that the proof needs is \<open>- (- x) = x\<close>, which negation of doubles satisfies too.
\<close>

theorem Gradients_Residuals_exact:
  fixes observed predicted :: "'a::group_add"
    and obs pred :: "'a list"
  assumes "length obs = length pred"
  shows "Gradients observed predicted = - (observed - predicted) \<and>
         Residuals observed predicted = - Gradients observed predicted \<and>
         Residuals observed predicted = observed - predicted \<and>
         Gradients_vec obs pred = Inr (map2 (\<lambda>a b. - (a - b)) obs pred) \<and>
         Residuals_vec obs pred = map_sum id (map uminus) (Gradients_vec obs pred) \<and>
         Residuals_vec obs pred = Inr (map2 (\<lambda>a b. a - b) obs pred)"
proof -
  have s1: "Gradients observed predicted = - (observed - predicted)"
    by (simp add: Gradients_def)
  have s2: "Residuals observed predicted = - Gradients observed predicted"
    by (simp add: Residuals_def)
  have s3: "Residuals observed predicted = observed - predicted"
    by (simp add: Residuals_def Gradients_def)
  have d: "arma_minus obs pred = Inr (map2 (\<lambda>a b. a - b) obs pred)"
    using assms by (simp add: arma_minus_def)
  have g: "Gradients_vec obs pred = Inr (map2 (\<lambda>a b. - (a - b)) obs pred)"
    by (simp only: Gradients_vec_def d sum.case arma_uminus_def uminus_map2_minus)
  have r: "Residuals_vec obs pred = Inr (map2 (\<lambda>a b. a - b) obs pred)"
    by (simp only: Residuals_vec_def g sum.case arma_uminus_def uminus_map2_uminus_minus)
  have rg: "Residuals_vec obs pred = map_sum id (map uminus) (Gradients_vec obs pred)"
    by (simp only: g r map_sum.simps id_apply uminus_map2_uminus_minus)
  from s1 s2 s3 g rg r show ?thesis by blast
qed

theorem Gradients_Residuals_exact_witness:
  "length [5, 7::int] = length [2, 10::int] \<and>
   Gradients (5::int) 2 = - 3 \<and> Residuals (5::int) 2 = 3 \<and>
   Gradients_vec [5, 7::int] [2, 10] = Inr [- 3, 3] \<and>
   Residuals_vec [5, 7::int] [2, 10] = Inr [3, - 3]"
  using Gradients_Residuals_exact [of "[5, 7::int]" "[2, 10]" 5 2]
  by simp

section \<open>Properties of the categorical split\<close>

lemma size_t_of_double_category:
  "0 \<le> x \<Longrightarrow> x < real K \<Longrightarrow> K < 2 ^ 64 \<Longrightarrow> size_t_of_double x = Some (category x) \<and> category x < K"
proof -
  assume a: "0 \<le> x" "x < real K" "K < 2 ^ 64"
  have "real K < 2 ^ 64" using a(3) by simp
  then have "x < 2 ^ 64" using a(2) by linarith
  moreover have "nat \<lfloor>x\<rfloor> < K" using a by linarith
  ultimately show ?thesis using a by (simp add: size_t_of_double_def category_def)
qed

lemma count_loop_result:
  assumes "\<forall>i\<in>set js. 0 \<le> data ! i \<and> data ! i < real K \<and> (UseWeights \<longrightarrow> i < length weights)"
    and "K < 2 ^ 64" and "length (counts s) = K"
    and "UseWeights \<longrightarrow> length (childWeightSums s) = K"
  shows "\<exists>s'. count_loop UseWeights data weights js s = Inr s' \<and>
           counts s' = map (\<lambda>c. counts s ! c + length (bucket_in data js c)) [0..<K] \<and>
           (UseWeights \<longrightarrow>
              childWeightSums s' =
                map (\<lambda>c. childWeightSums s ! c + (\<Sum>i\<leftarrow>bucket_in data js c. weights ! i)) [0..<K] \<and>
              sumWeight s' = sumWeight s + (\<Sum>i\<leftarrow>js. weights ! i)) \<and>
           (\<not> UseWeights \<longrightarrow> childWeightSums s' = childWeightSums s \<and> sumWeight s' = sumWeight s)"
  using assms
proof (induction js arbitrary: s)
  case Nil
  have "map ((!) (counts s)) [0..<length (counts s)] = counts s"
       "map ((!) (childWeightSums s)) [0..<length (childWeightSums s)] = childWeightSums s"
    by (rule map_nth)+
  with Nil(3,4) show ?case by (auto simp: bucket_in_def)
next
  case (Cons i js)
  from Cons.prems have r: "0 \<le> data ! i" "data ! i < real K" by auto
  note c = size_t_of_double_category [OF r Cons.prems(2)]
  let ?c = "category (data ! i)"
  let ?s1 = "s\<lparr>counts := (counts s)[?c := counts s ! ?c + 1]\<rparr>"
  let ?s2 = "?s1\<lparr>childWeightSums := (childWeightSums ?s1)[?c := childWeightSums ?s1 ! ?c + weights ! i],
                          sumWeight := sumWeight ?s1 + weights ! i\<rparr>"
  let ?n = "if UseWeights then ?s2 else ?s1"
  have step: "count_loop UseWeights data weights (i # js) s = count_loop UseWeights data weights js ?n"
    using c Cons.prems by (cases UseWeights) (auto simp: Let_def)
  have len: "length (counts ?n) = K" "UseWeights \<longrightarrow> length (childWeightSums ?n) = K"
    using Cons.prems by simp_all
  have pre: "\<forall>i\<in>set js. 0 \<le> data ! i \<and> data ! i < real K \<and> (UseWeights \<longrightarrow> i < length weights)"
    using Cons.prems by simp
  from Cons.IH [OF pre Cons.prems(2) len] obtain s' where
    s': "count_loop UseWeights data weights js ?n = Inr s'"
        "counts s' = map (\<lambda>c. counts ?n ! c + length (bucket_in data js c)) [0..<K]"
        "UseWeights \<longrightarrow>
              childWeightSums s' =
                map (\<lambda>c. childWeightSums ?n ! c + (\<Sum>i\<leftarrow>bucket_in data js c. weights ! i)) [0..<K] \<and>
              sumWeight s' = sumWeight ?n + (\<Sum>i\<leftarrow>js. weights ! i)"
        "\<not> UseWeights \<longrightarrow> childWeightSums s' = childWeightSums ?n \<and> sumWeight s' = sumWeight ?n"
    by blast
  have cn: "counts ?n = (counts s)[?c := counts s ! ?c + 1]" by simp
  have c1: "map (\<lambda>c. counts ?n ! c + length (bucket_in data js c)) [0..<K]
        = map (\<lambda>c. counts s ! c + length (bucket_in data (i # js) c)) [0..<K]"
    unfolding cn using Cons.prems(3) by (auto simp: bucket_in_def nth_list_update)
  have c2: "UseWeights \<Longrightarrow> 
        map (\<lambda>c. childWeightSums ?n ! c + (\<Sum>i\<leftarrow>bucket_in data js c. weights ! i)) [0..<K]
        = map (\<lambda>c. childWeightSums s ! c + (\<Sum>i\<leftarrow>bucket_in data (i # js) c. weights ! i)) [0..<K]"
    using Cons.prems(4) by (auto simp: bucket_in_def nth_list_update)
  show ?case
  proof (cases UseWeights)
    case True
    with s' step c1 c2 show ?thesis by (simp add: add.assoc)
  next
    case False
    with s' step c1 show ?thesis by simp
  qed
qed

lemma arma_min_nonempty:
  assumes "v \<noteq> []"
  shows "arma_min v = Inr (Min (set v))"
proof (cases v)
  case Nil
  with assms show ?thesis by simp
next
  case (Cons x xs)
  have "Min (set (x # xs)) = fold min xs x" by (rule Min.set_eq_fold)
  with Cons show ?thesis by (simp only: arma_min_def list.case)
qed

lemma length_bucket: "length (bucket data c) = length (filter (\<lambda>x. category x = c) data)"
proof -
  have "filter (\<lambda>x. category x = c) (map ((!) data) [0..<length data])
        = map ((!) data) (filter ((\<lambda>x. category x = c) \<circ> (!) data) [0..<length data])"
    by (rule filter_map)
  then have "filter (\<lambda>x. category x = c) data = map ((!) data) (bucket data c)"
    by (simp add: map_nth bucket_def bucket_in_def o_def)
  then show ?thesis by simp
qed

lemma count_loop_initial:
  assumes "\<forall>x\<in>set data. 0 \<le> x \<and> x < real K" and "K < 2 ^ 64"
    and "UseWeights \<longrightarrow> length data \<le> length weights"
  shows "count_loop UseWeights data weights [0..<length data]
           \<lparr>counts = replicate K 0,
            childWeightSums = (if UseWeights then replicate K 0 else []),
            sumWeight = 0\<rparr>
         = Inr \<lparr>counts = map (\<lambda>c. length (bucket data c)) [0..<K],
                childWeightSums =
                  (if UseWeights then map (\<lambda>c. \<Sum>i\<leftarrow>bucket data c. weights ! i) [0..<K] else []),
                sumWeight = (if UseWeights then \<Sum>i\<leftarrow>[0..<length data]. weights ! i else 0)\<rparr>"
proof -
  let ?s0 = "\<lparr>counts = replicate K 0,
            childWeightSums = (if UseWeights then replicate K (0::real) else []),
            sumWeight = 0\<rparr>"
  have pre: "\<forall>i\<in>set [0..<length data].
               0 \<le> data ! i \<and> data ! i < real K \<and> (UseWeights \<longrightarrow> i < length weights)"
    using assms(1,3) by auto
  have l: "length (counts ?s0) = K" "UseWeights \<longrightarrow> length (childWeightSums ?s0) = K" by simp_all
  from count_loop_result [OF pre assms(2) l] obtain s' where
    s': "count_loop UseWeights data weights [0..<length data] ?s0 = Inr s'"
        "counts s' = map (\<lambda>c. counts ?s0 ! c + length (bucket_in data [0..<length data] c)) [0..<K]"
        "UseWeights \<longrightarrow>
              childWeightSums s' =
                map (\<lambda>c. childWeightSums ?s0 ! c + (\<Sum>i\<leftarrow>bucket_in data [0..<length data] c. weights ! i)) [0..<K] \<and>
              sumWeight s' = sumWeight ?s0 + (\<Sum>i\<leftarrow>[0..<length data]. weights ! i)"
        "\<not> UseWeights \<longrightarrow> childWeightSums s' = childWeightSums ?s0 \<and> sumWeight s' = sumWeight ?s0"
    by blast
  have "counts s' = map (\<lambda>c. length (bucket data c)) [0..<K]"
    using s'(2) by (simp add: bucket_def)
  moreover have "UseWeights \<Longrightarrow> childWeightSums s' = map (\<lambda>c. \<Sum>i\<leftarrow>bucket data c. weights ! i) [0..<K]"
    using s'(3) by (simp add: bucket_def)
  moreover have "UseWeights \<Longrightarrow> sumWeight s' = (\<Sum>i\<leftarrow>[0..<length data]. weights ! i)"
    using s'(3) by simp
  moreover have "\<not> UseWeights \<Longrightarrow> childWeightSums s' = [] \<and> sumWeight s' = 0"
    using s'(4) by simp
  ultimately have "s' = \<lparr>counts = map (\<lambda>c. length (bucket data c)) [0..<K],
                childWeightSums =
                  (if UseWeights then map (\<lambda>c. \<Sum>i\<leftarrow>bucket data c. weights ! i) [0..<K] else []),
                sumWeight = (if UseWeights then \<Sum>i\<leftarrow>[0..<length data]. weights ! i else 0)\<rparr>"
    by (cases UseWeights) simp_all
  with s'(1) show ?thesis by simp
qed

lemma arma_min_bucket_counts:
  assumes "0 < K"
  shows "arma_min (map (\<lambda>c. length (bucket data c)) [0..<K])
         = Inr (Min ((\<lambda>c. length (bucket data c)) ` {0..<K}))"
proof -
  have "map (\<lambda>c. length (bucket data c)) [0..<K] \<noteq> []" using assms by simp
  from arma_min_nonempty [OF this] show ?thesis by simp
qed

text \<open>
  Claim C5. When every value of \<open>data\<close> is a category in \<open>[0, numCategories)\<close> and
  some category \<open>c\<close> of that range holds fewer than \<open>minimumLeafSize\<close> samples,
  \<open>SplitIfBetter\<close> returns \<open>DBL_MAX\<close>, whatever the labels and the fitness function
  are, leaves \<open>splitInfo\<close> as it was and has made no call to the fitness function. The
  witness is the scenario of the specification: two categories with counts 5 and 1 and
  \<open>minimumLeafSize = 2\<close>.
\<close>

theorem SplitIfBetter_leaf_size_guard:
  assumes "\<forall>x\<in>set data. 0 \<le> x \<and> x < real numCategories"
    and "numCategories < 2 ^ 64"
    and "UseWeights \<longrightarrow> length data \<le> length weights"
    and "c < numCategories"
    and "length (filter (\<lambda>x. category x = c) data) < minimumLeafSize"
  shows "SplitIfBetter UseWeights Evaluate bestGain data numCategories labels numClasses weights
           minimumLeafSize minimumGainSplit splitInfo = Inr (DBL_MAX, splitInfo, [])"
proof -
  have K: "0 < numCategories" using assms(4) by simp
  let ?f = "\<lambda>c. length (bucket data c)"
  have "Min (?f ` {0..<numCategories}) \<le> ?f c"
    using assms(4) by (intro Min_le) auto
  then have m: "Min (?f ` {0..<numCategories}) < minimumLeafSize"
    using assms(5) by (simp add: length_bucket)
  show ?thesis
    unfolding SplitIfBetter_def Let_def
    by (simp only: count_loop_initial [OF assms(1-3)] arma_min_bucket_counts [OF K]
          sum.case count_state.simps m if_True)
qed

theorem SplitIfBetter_leaf_size_guard_witness:
  "SplitIfBetter False (\<lambda>ls n ws. 1) 0 [0, 0, 0, 0, 0, 1] 2 [1, 1, 1, 0, 0, 0::nat] 2 [] 2 0 (Scalar 0)
     = Inr (DBL_MAX, Scalar 0, [])"
  using SplitIfBetter_leaf_size_guard [of "[0, 0, 0, 0, 0, 1]" 2 False "[]" 1 2 "\<lambda>ls n ws. 1" 0 "[1, 1, 1, 0, 0, 0::nat]" 2 0 "Scalar 0"]
  by (simp add: category_def)



















section \<open>Properties of the partitioner\<close>




























text \<open>
  Labels held in a column vector pass the \<open>typeCheck\<close> but not the resizing of the
  label outputs: with four labels and \<open>trainSize = 2\<close> the call
  \<open>trainLabel.set_size(4, 2)\<close> throws, after the two data outputs were resized. The
  theorems on \<open>StratifiedSplit\<close> below are about labels held in a row vector.
\<close>

lemma StratifiedSplit_column_labels:
  "StratifiedSplit (Some IsCol) [10, 20, 30, 40::nat] [0, 0, 1, 1] out0 (1 / 2) False []
     = Inl (IncompatibleSize, out0\<lparr>trainData := [None, None], testData := [None, None]\<rparr>)"
  by (simp add: StratifiedSplit_def arma_vec_rows_cols_def size_t_of_double_def set_size_def
        Let_def numeral_2_eq_2)

lemma StratifiedSplit_not_a_vector:
  "StratifiedSplit None input inputLabel out0 testRatio shuffleData order = Inl (RuntimeError, out0)"
  by (simp add: StratifiedSplit_def)

lemma Split_dispatch:
  "Split LabelsType input inputLabel testRatio shuffleData True order
     = StratifiedSplit LabelsType input inputLabel
         \<lparr>trainData = [], testData = [], trainLabel = [], testLabel = []\<rparr>
         testRatio shuffleData order"
  "Split LabelsType input inputLabel testRatio shuffleData False order
     = SplitHelper input inputLabel
         \<lparr>trainData = [], testData = [], trainLabel = [], testLabel = []\<rparr>
         testRatio shuffleData order"
  by (simp_all add: Split_def)





























end
